theory Spec2Isabelle
  imports Complex_Main "HOL-Library.Sublist"
begin

section \<open>Values exchanged with the external services\<close>

text \<open>
  The backend (\<^verbatim>\<open>src/backend.py\<close>) is a set of request handlers that talk to four external
  services: blob storage, the SAS signer, document analysis and chat completion.  The
  handlers are modelled as computations that may raise a Python exception (carried as the
  text \<^verbatim>\<open>str(e)\<close>) and that append every call to an external service, and every line
  written to the console, to a log, so that what a handler sends out is part of its result.
\<close>

text \<open>A chat message, the Python dict \<^verbatim>\<open>{"role": ..., "content": ...}\<close>.\<close>

record turn =
  role :: string
  content :: string

text \<open>One entry of \<^verbatim>\<open>extension_config["dataSources"]\<close>.\<close>

record data_source =
  ds_type :: string
  ds_endpoint :: string
  ds_key :: string
  ds_indexName :: string

text \<open>The keyword arguments of \<^verbatim>\<open>chat.completions.create\<close>; \<^verbatim>\<open>extra_body\<close> is absent
  (\<open>None\<close>) where the source does not pass it.\<close>

record completion_request =
  model :: string
  temperature :: rat
  max_tokens :: nat
  messages :: "turn list"
  extra_body :: "data_source list option"

text \<open>The two module-level OpenAI clients.\<close>

datatype openai_client = client | client_with_extensions

text \<open>The flags of \<^verbatim>\<open>BlobSasPermissions\<close>; the constructor sets every flag that is not
  passed to \<open>False\<close>.\<close>

record blob_sas_permissions =
  read :: bool
  add :: bool
  create :: bool
  "write" :: bool
  delete :: bool
  delete_previous_version :: bool
  tag :: bool

definition BlobSasPermissions :: "bool \<Rightarrow> blob_sas_permissions" where
  "BlobSasPermissions rd =
     \<lparr>read = rd, add = False, create = False, write = False, delete = False,
      delete_previous_version = False, tag = False\<rparr>"

text \<open>A point in time is a count of microseconds (the resolution of \<^verbatim>\<open>datetime\<close>);
  \<^verbatim>\<open>timedelta(minutes=m)\<close> is a number of microseconds.\<close>

type_synonym datetime = int

definition timedelta_minutes :: "int \<Rightarrow> int" where
  "timedelta_minutes m = m * 60 * 1000000"

text \<open>The keyword arguments of \<^verbatim>\<open>generate_blob_sas\<close>.\<close>

record sas_args =
  account_name :: string
  container_name :: string
  blob_name :: string
  account_key :: string
  permission :: blob_sas_permissions
  expiry :: datetime

text \<open>An uploaded file of the multipart form (\<^verbatim>\<open>request.files["file"]\<close>).\<close>

record file_storage =
  filename :: string
  stream :: string

text \<open>The calls a handler makes to the outside, in the order it makes them.\<close>

datatype event =
  UploadBlob string string file_storage bool
| GenerateBlobSas sas_args
| AnalyzeDocumentFromUrl string string
| CompletionsCreate openai_client completion_request
| Print string

section \<open>Exceptions and the call log\<close>

datatype 'a outcome = Raised string | Returned 'a

type_synonym 'a action = "event list \<Rightarrow> 'a outcome \<times> event list"

definition return_val :: "'a \<Rightarrow> 'a action" where
  "return_val x = (\<lambda>log. (Returned x, log))"

definition raise_exc :: "string \<Rightarrow> 'a action" where
  "raise_exc e = (\<lambda>log. (Raised e, log))"

definition bind_act :: "'a action \<Rightarrow> ('a \<Rightarrow> 'b action) \<Rightarrow> 'b action" where
  "bind_act m f =
     (\<lambda>log. case m log of
        (Raised e, log') \<Rightarrow> (Raised e, log')
      | (Returned x, log') \<Rightarrow> f x log')"

text \<open>\<^verbatim>\<open>try: m  except Exception as e: h(str(e))\<close>\<close>

definition try_except :: "'a action \<Rightarrow> (string \<Rightarrow> 'a action) \<Rightarrow> 'a action" where
  "try_except m h =
     (\<lambda>log. case m log of
        (Raised e, log') \<Rightarrow> h e log'
      | (Returned x, log') \<Rightarrow> (Returned x, log'))"

text \<open>A call to an external service: it is logged, and its outcome is the service's.\<close>

definition call_service :: "event \<Rightarrow> 'a outcome \<Rightarrow> 'a action" where
  "call_service ev r = (\<lambda>log. (r, log @ [ev]))"

text \<open>\<^verbatim>\<open>d[k]\<close> on a request dictionary: a missing key raises \<^verbatim>\<open>KeyError\<close>, whose text
  is the quoted key.\<close>

definition getitem :: "'a option \<Rightarrow> string \<Rightarrow> 'a action" where
  "getitem v k =
     (case v of
        None \<Rightarrow> raise_exc ([CHR 0x27] @ k @ [CHR 0x27])
      | Some x \<Rightarrow> return_val x)"

text \<open>\<^verbatim>\<open>response.choices[0].message.content\<close>: an empty list of choices raises
  \<^verbatim>\<open>IndexError\<close>.  A completion response is modelled by the message contents of its
  choices.\<close>

definition first_choice :: "string list \<Rightarrow> string action" where
  "first_choice choices =
     (case choices of
        [] \<Rightarrow> raise_exc ''list index out of range''
      | c # _ \<Rightarrow> return_val c)"

section \<open>Configuration and service behaviour\<close>

text \<open>
  The module-level configuration constants, the values read from the environment of one
  request (clock and fresh UUID text), and the outcome of each external call as a
  function of its arguments.  \<open>str_result\<close> is the text \<^verbatim>\<open>str(result)\<close> of an analysis result,
  and \<open>stdout_outcome\<close> says whether the console accepts a line: \<^verbatim>\<open>print\<close> raises where the
  console cannot encode it or is closed.
\<close>

record services =
  AZURE_OAI_DEPLOYMENT :: string
  AZURE_SEARCH_ENDPOINT :: string
  AZURE_SEARCH_KEY :: string
  AZURE_SEARCH_INDEX :: string
  AZURE_BLOB_CONTAINER :: string
  AZURE_BLOB_KEY :: string
  blob_account_name :: string
  uuid4 :: string
  utcnow :: datetime
  blob_url :: "string \<Rightarrow> string"
  upload_outcome :: "string \<Rightarrow> file_storage \<Rightarrow> unit outcome"
  sas_outcome :: "sas_args \<Rightarrow> string outcome"
  analyze_outcome :: "string \<Rightarrow> string list option outcome"
  completions_outcome :: "openai_client \<Rightarrow> completion_request \<Rightarrow> string list outcome"
  str_result :: "string list option \<Rightarrow> string"
  stdout_outcome :: "string \<Rightarrow> unit outcome"

text \<open>An HTTP response built by \<^verbatim>\<open>jsonify\<close>: a JSON object of text fields and a status.\<close>

record http_response =
  json :: "(string \<times> string) list"
  status :: nat

text \<open>\<^verbatim>\<open>jsonify(obj)\<close> answers with status 200; the handler's tuple \<^verbatim>\<open>(response, code)\<close>
  replaces the status.\<close>

definition jsonify :: "(string \<times> string) list \<Rightarrow> http_response" where
  "jsonify obj = \<lparr>json = obj, status = 200\<rparr>"

definition with_status :: "http_response \<Rightarrow> nat \<Rightarrow> http_response" where
  "with_status r code = r\<lparr>status := code\<rparr>"

text \<open>\<^verbatim>\<open>print(text)\<close>\<close>

definition print_line :: "services \<Rightarrow> string \<Rightarrow> unit action" where
  "print_line sv text = call_service (Print text) (stdout_outcome sv text)"

definition completions_create :: "services \<Rightarrow> openai_client \<Rightarrow> completion_request \<Rightarrow> string list action" where
  "completions_create sv c rq = call_service (CompletionsCreate c rq) (completions_outcome sv c rq)"

section \<open>Follow-up chat\<close>

text \<open>The JSON body of \<^verbatim>\<open>/followup_chat\<close>: an object whose \<^verbatim>\<open>doc\<close> is text and whose
  \<^verbatim>\<open>history\<close> is a list of turns; either field may be missing.\<close>

record followup_body =
  doc :: "string option"
  history :: "turn list option"

definition prompt_intro :: string where
  \<open>prompt_intro =
     ''\<newline>'' @
     ''\<newline>'' @
     ''        You are an AI assistant analyzing uploaded business documents.\<newline>'' @
     ''        First, summarize key content(include problem trying to solve/address). Then extract:\<newline>'' @
     ''        - Technology Specs\<newline>'' @
     ''        -User numbers and deployment scale\<newline>'' @
     ''        -Current systems and pain points\<newline>'' @
     ''        - Action Items for proposal team\<newline>'' @
     ''        - Required integrations\<newline>'' @
     ''        - If suggesting BOM items, explain why they match the requirements\<newline>'' @
     ''        - Compliance requirements\<newline>'' @
     ''        -conclusive summary\<newline>'' @
     ''        If any section is missing, respond with: "This document does not contain information on [Missing Section]."\<newline>'' @
     ''        Respond clearly and conversationally.\<newline>'' @
     ''\<newline>'' @
     ''        ''\<close>

definition followup_chat :: "services \<Rightarrow> followup_body \<Rightarrow> http_response outcome \<times> event list" where
  "followup_chat sv data =
     try_except
       (bind_act (getitem (doc data) ''doc'') (\<lambda>doc_text.
        bind_act (getitem (history data) ''history'') (\<lambda>chat_history.
        bind_act (completions_create sv client
                    \<lparr>model = AZURE_OAI_DEPLOYMENT sv, temperature = 1 / 2, max_tokens = 1000,
                     messages =
                       [\<lparr>role = ''system'', content = prompt_intro\<rparr>,
                        \<lparr>role = ''system'', content = doc_text\<rparr>] @ chat_history,
                     extra_body = None\<rparr>) (\<lambda>response.
        bind_act (first_choice response) (\<lambda>answer.
        return_val (jsonify [(''answer'', answer)]))))))
       (\<lambda>e. return_val (with_status (jsonify [(''error'', e)]) 500))
       []"

section \<open>Chat with the indexed documents\<close>

text \<open>\<^verbatim>\<open>d.get(k, dflt)\<close> on a dictionary whose entry for \<open>k\<close> is \<open>v\<close>.\<close>

definition dict_get :: "'a option \<Rightarrow> 'a \<Rightarrow> 'a" where
  "dict_get v dflt = (case v of None \<Rightarrow> dflt | Some x \<Rightarrow> x)"

text \<open>A JSON object sent to \<^verbatim>\<open>/chat\<close>: its \<^verbatim>\<open>message\<close>, when present, is text.\<close>

record chat_body =
  message :: "string option"

text \<open>
  What \<^verbatim>\<open>request.json\<close> gives for the body of a request: it raises (the body is not
  declared as JSON or does not parse; the text is that of werkzeug's exception), or it is
  a JSON value that is not an object (a list, a string, a number, a truth value or
  \<^verbatim>\<open>null\<close>; the name is that of its Python type), or it is an object.
\<close>

datatype request_json =
  JsonError string
| JsonNonObject string
| JsonObject chat_body

text \<open>The text of \<^verbatim>\<open>AttributeError\<close> for a value of type \<open>ty\<close> without the attribute.\<close>

definition attribute_error :: "string \<Rightarrow> string \<Rightarrow> string" where
  "attribute_error ty attr =
     [CHR 0x27] @ ty @ [CHR 0x27] @ '' object has no attribute '' @ [CHR 0x27] @ attr @ [CHR 0x27]"

text \<open>Line 76, \<^verbatim>\<open>request.json.get("message", "")\<close>: only an object has \<^verbatim>\<open>get\<close>.\<close>

definition request_json_get_message :: "request_json \<Rightarrow> string action" where
  "request_json_get_message rq =
     (case rq of
        JsonError e \<Rightarrow> raise_exc e
      | JsonNonObject ty \<Rightarrow> raise_exc (attribute_error ty ''get'')
      | JsonObject body \<Rightarrow> return_val (dict_get (message body) ''''))"

definition extension_config :: "services \<Rightarrow> data_source list" where
  "extension_config sv =
     [\<lparr>ds_type = ''AzureCognitiveSearch'', ds_endpoint = AZURE_SEARCH_ENDPOINT sv,
       ds_key = AZURE_SEARCH_KEY sv, ds_indexName = AZURE_SEARCH_INDEX sv\<rparr>]"

text \<open>The f-string of \<^verbatim>\<open>chatbot_query\<close>: the text before the substituted query, and the
  lines after it.\<close>

definition chatbot_prompt_before :: string where
  \<open>chatbot_prompt_before =
     ''\<newline>'' @
     ''      You are an AI assistant helping users engage with business documents.\<newline>'' @
     ''      User query: ''\<close>

definition chatbot_prompt_lines :: "string list" where
  \<open>chatbot_prompt_lines =
    [''\<newline>'',
     ''\<newline>'',
     ''    Always provide specific, relevant information      \<newline>'',
     ''      First, give a general summary(Include scope & purpose). Then extract , focus on these:\<newline>'',
     ''      - Technology Specs\<newline>'',
     ''      - Problem being addressed\<newline>'',
     ''        -User numbers and deployment scale\<newline>'',
     ''        -Current systems and pain points\<newline>'',
     ''        - Action Items for proposal team\<newline>'',
     ''        - Required integrations\<newline>'',
     ''        - If suggesting BOM items, explain why they match the requirements\<newline>'',
     ''        If any section is missing, respond with: "This document does not contain information on [Missing Section]."\<newline>'',
     ''\<newline>'',
     ''        Respond clearly and conversationally.\<newline>'',
     ''    '']\<close>

definition chatbot_prompt :: "string \<Rightarrow> string" where
  "chatbot_prompt user_input = chatbot_prompt_before @ user_input @ concat chatbot_prompt_lines"

definition chatbot_query :: "services \<Rightarrow> string \<Rightarrow> string action" where
  "chatbot_query sv user_input =
     try_except
       (bind_act (completions_create sv client_with_extensions
                    \<lparr>model = AZURE_OAI_DEPLOYMENT sv, temperature = 1 / 2, max_tokens = 1000,
                     messages =
                       [\<lparr>role = ''system'', content = ''You answer using Azure Cognitive Search.''\<rparr>,
                        \<lparr>role = ''user'', content = chatbot_prompt user_input\<rparr>],
                     extra_body = Some (extension_config sv)\<rparr>) (\<lambda>response.
        first_choice response))
       (\<lambda>ex. return_val (''Error retrieving insights: '' @ ex))"

text \<open>The handler has no \<^verbatim>\<open>try\<close> of its own: an exception raised by reading the request
  leaves it.\<close>

definition chat :: "services \<Rightarrow> request_json \<Rightarrow> http_response outcome \<times> event list" where
  "chat sv rq =
     bind_act (request_json_get_message rq) (\<lambda>user_input.
     bind_act (chatbot_query sv user_input) (\<lambda>response_text.
     return_val (jsonify [(''response'', response_text)])))
     []"

section \<open>Upload, extraction and the one-time question\<close>

text \<open>\<^verbatim>\<open>sep.join(xs)\<close>\<close>

fun join :: "string \<Rightarrow> string list \<Rightarrow> string" where
  "join sep [] = []"
| "join sep [x] = x"
| "join sep (x # y # ys) = x @ sep @ join sep (y # ys)"

text \<open>The multipart form: \<^verbatim>\<open>request.files["file"]\<close> and \<^verbatim>\<open>request.form["question"]\<close>.
  A missing key raises werkzeug's \<^verbatim>\<open>BadRequestKeyError\<close>.\<close>

record upload_form =
  "file" :: "file_storage option"
  question :: "string option"

definition bad_request_key_error :: string where
  "bad_request_key_error =
     ''400 Bad Request: The browser (or proxy) sent a request that this server could not understand.''"

definition form_getitem :: "'a option \<Rightarrow> 'a action" where
  "form_getitem v = (case v of None \<Rightarrow> raise_exc bad_request_key_error | Some x \<Rightarrow> return_val x)"

text \<open>The three external calls of the upload handlers.\<close>

definition upload_blob :: "services \<Rightarrow> string \<Rightarrow> file_storage \<Rightarrow> unit action" where
  "upload_blob sv name f =
     call_service (UploadBlob (AZURE_BLOB_CONTAINER sv) name f True) (upload_outcome sv name f)"

definition generate_blob_sas :: "services \<Rightarrow> sas_args \<Rightarrow> string action" where
  "generate_blob_sas sv args = call_service (GenerateBlobSas args) (sas_outcome sv args)"

definition begin_analyze_document_from_url :: "services \<Rightarrow> string \<Rightarrow> string \<Rightarrow> string list option action" where
  "begin_analyze_document_from_url sv model_id url =
     call_service (AnalyzeDocumentFromUrl model_id url) (analyze_outcome sv url)"

text \<open>Line 157: a missing or empty paragraph list is falsy.\<close>

definition upload_full_text :: "string list option \<Rightarrow> string" where
  "upload_full_text paragraphs =
     (case paragraphs of
        Some (p # ps) \<Rightarrow> join '' '' (p # ps)
      | _ \<Rightarrow> ''No content found'')"

definition upload_prompt :: "string \<Rightarrow> string \<Rightarrow> string" where
  \<open>upload_prompt full_text user_question =
     ''\<newline>'' @
     ''        The user uploaded this document:\<newline>'' @
     ''        '' @ full_text @ ''\<newline>'' @
     ''\<newline>'' @
     ''        They asked:\<newline>'' @
     ''        '' @ user_question @ ''\<newline>'' @
     ''\<newline>'' @
     ''        Please answer using only the document's contents.\<newline>'' @
     ''        ''\<close>

definition upload_and_ask :: "services \<Rightarrow> upload_form \<Rightarrow> http_response outcome \<times> event list" where
  "upload_and_ask sv form =
     try_except
       (bind_act (form_getitem (file form)) (\<lambda>f.
        bind_act (form_getitem (question form)) (\<lambda>user_question.
        bind_act (upload_blob sv (uuid4 sv @ ''_'' @ filename f) f) (\<lambda>_.
        bind_act (generate_blob_sas sv
                    \<lparr>account_name = blob_account_name sv,
                     container_name = AZURE_BLOB_CONTAINER sv,
                     blob_name = uuid4 sv @ ''_'' @ filename f,
                     account_key = AZURE_BLOB_KEY sv,
                     permission = BlobSasPermissions True,
                     expiry = utcnow sv + timedelta_minutes 10\<rparr>) (\<lambda>sas_token.
        bind_act (begin_analyze_document_from_url sv ''prebuilt-document''
                    (blob_url sv (uuid4 sv @ ''_'' @ filename f) @ ''?'' @ sas_token)) (\<lambda>paragraphs.
        bind_act (completions_create sv client
                    \<lparr>model = AZURE_OAI_DEPLOYMENT sv, temperature = 1 / 2, max_tokens = 1000,
                     messages =
                       [\<lparr>role = ''system'', content = ''You are an AI document assistant.''\<rparr>,
                        \<lparr>role = ''user'',
                         content = upload_prompt (upload_full_text paragraphs) user_question\<rparr>],
                     extra_body = None\<rparr>) (\<lambda>response.
        bind_act (first_choice response) (\<lambda>answer.
        return_val (jsonify [(''answer'', answer)])))))))))
       (\<lambda>e. return_val (with_status (jsonify [(''error'', e)]) 500))
       []"

text \<open>\<^verbatim>\<open>/extract_text\<close> reads the file of the same multipart form and ignores any other
  field.  It prints two lines: the raw analysis result (line 207, inside the \<^verbatim>\<open>try\<close> and
  before the paragraph test), which starts with the character U+1F50D, here its four
  UTF-8 bytes; and the error (line 218, inside the \<^verbatim>\<open>except\<close> clause, so that an exception
  of this \<^verbatim>\<open>print\<close> leaves the handler).\<close>

definition magnifying_glass :: string where
  "magnifying_glass = [CHR 0xF0, CHR 0x9F, CHR 0x94, CHR 0x8D]"

definition raw_response_line :: "services \<Rightarrow> string list option \<Rightarrow> string" where
  "raw_response_line sv result = magnifying_glass @ '' Raw API Response: '' @ str_result sv result"

definition error_line :: "string \<Rightarrow> string" where
  "error_line e = '' Error extracting text: '' @ e"

definition extract_text :: "services \<Rightarrow> upload_form \<Rightarrow> http_response outcome \<times> event list" where
  "extract_text sv form =
     try_except
       (bind_act (form_getitem (file form)) (\<lambda>f.
        bind_act (upload_blob sv (uuid4 sv @ ''_'' @ filename f) f) (\<lambda>_.
        bind_act (generate_blob_sas sv
                    \<lparr>account_name = blob_account_name sv,
                     container_name = AZURE_BLOB_CONTAINER sv,
                     blob_name = uuid4 sv @ ''_'' @ filename f,
                     account_key = AZURE_BLOB_KEY sv,
                     permission = BlobSasPermissions True,
                     expiry = utcnow sv + timedelta_minutes 10\<rparr>) (\<lambda>sas_token.
        bind_act (begin_analyze_document_from_url sv ''prebuilt-document''
                    (blob_url sv (uuid4 sv @ ''_'' @ filename f) @ ''?'' @ sas_token)) (\<lambda>paragraphs.
        bind_act (print_line sv (raw_response_line sv paragraphs)) (\<lambda>_.
        (case paragraphs of
           Some (p # ps) \<Rightarrow> return_val (jsonify [(''text'', join '' '' (p # ps))])
         | _ \<Rightarrow> return_val
                 (with_status (jsonify [(''error'', ''No text extracted from document'')]) 400))))))))
       (\<lambda>e.
        bind_act (print_line sv (error_line e)) (\<lambda>_.
        return_val (with_status (jsonify [(''error'', e)]) 500)))
       []"

section \<open>Reading the call log\<close>

text \<open>The message lists of the completion calls in a log.\<close>

fun sent_messages :: "event list \<Rightarrow> turn list list" where
  "sent_messages [] = []"
| "sent_messages (CompletionsCreate c rq # evs) = messages rq # sent_messages evs"
| "sent_messages (_ # evs) = sent_messages evs"

text \<open>The arguments of the SAS tokens requested in a log.\<close>

fun issued_grants :: "event list \<Rightarrow> sas_args list" where
  "issued_grants [] = []"
| "issued_grants (GenerateBlobSas args # evs) = args # issued_grants evs"
| "issued_grants (_ # evs) = issued_grants evs"

text \<open>The blob names of the uploads in a log.\<close>

fun uploaded_blob_names :: "event list \<Rightarrow> string list" where
  "uploaded_blob_names [] = []"
| "uploaded_blob_names (UploadBlob c name f ov # evs) = name # uploaded_blob_names evs"
| "uploaded_blob_names (_ # evs) = uploaded_blob_names evs"

text \<open>The service answered the logged call by raising an exception with text \<open>e\<close>.\<close>

fun outcome_raised :: "services \<Rightarrow> event \<Rightarrow> string \<Rightarrow> bool" where
  "outcome_raised sv (UploadBlob c name f ov) e = (upload_outcome sv name f = Raised e)"
| "outcome_raised sv (GenerateBlobSas args) e = (sas_outcome sv args = Raised e)"
| "outcome_raised sv (AnalyzeDocumentFromUrl m url) e = (analyze_outcome sv url = Raised e)"
| "outcome_raised sv (CompletionsCreate c rq) e = (completions_outcome sv c rq = Raised e)"
| "outcome_raised sv (Print text) e = (stdout_outcome sv text = Raised e)"

text \<open>Searching a text: what follows the first occurrence of a pattern, and whether a
  list of patterns occurs in the given order, each after the end of the one before.\<close>

fun after_first :: "'a list \<Rightarrow> 'a list \<Rightarrow> 'a list option" where
  "after_first p [] = (if p = [] then Some [] else None)"
| "after_first p (c # cs) =
     (if prefix p (c # cs) then Some (drop (length p) (c # cs)) else after_first p cs)"

fun occur_in_order :: "'a list list \<Rightarrow> 'a list \<Rightarrow> bool" where
  "occur_in_order [] s = True"
| "occur_in_order (p # ps) s =
     (case after_first p s of None \<Rightarrow> False | Some r \<Rightarrow> occur_in_order ps r)"

section \<open>Example deployments and requests\<close>

text \<open>A deployment in which every service answers, and the analysis finds no paragraph.\<close>

definition example_services :: services where
  "example_services =
     \<lparr>AZURE_OAI_DEPLOYMENT = ''gpt-35-turbo'',
      AZURE_SEARCH_ENDPOINT = ''https://search.example'',
      AZURE_SEARCH_KEY = ''search-key'',
      AZURE_SEARCH_INDEX = ''proposals'',
      AZURE_BLOB_CONTAINER = ''uploads'',
      AZURE_BLOB_KEY = ''blob-key'',
      blob_account_name = ''thinktank'',
      uuid4 = ''123e4567-e89b-42d3-a456-426614174000'',
      utcnow = 1700000000000000,
      blob_url = (\<lambda>name. ''https://thinktank.blob.example/uploads/'' @ name),
      upload_outcome = (\<lambda>name f. Returned ()),
      sas_outcome = (\<lambda>args. Returned ''sig=abc''),
      analyze_outcome = (\<lambda>url. Returned (Some [])),
      completions_outcome = (\<lambda>c rq. Returned [''The document has no content.'']),
      str_result = (\<lambda>result. ''<AnalyzeResult>''),
      stdout_outcome = (\<lambda>text. Returned ())\<rparr>"

definition example_form :: upload_form where
  "example_form =
     \<lparr>file = Some \<lparr>filename = ''report.pdf'', stream = ''%PDF''\<rparr>,
      question = Some ''What is the budget?''\<rparr>"

text \<open>The blob name, the SAS arguments and the signed URL of that upload.\<close>

definition example_blob_name :: string where
  "example_blob_name = ''123e4567-e89b-42d3-a456-426614174000_report.pdf''"

definition example_grant :: sas_args where
  "example_grant =
     \<lparr>account_name = ''thinktank'', container_name = ''uploads'',
      blob_name = example_blob_name, account_key = ''blob-key'',
      permission = BlobSasPermissions True, expiry = 1700000600000000\<rparr>"

definition example_sas_url :: string where
  "example_sas_url = ''https://thinktank.blob.example/uploads/'' @ example_blob_name @ ''?sig=abc''"

text \<open>The same deployment where the analysis finds two paragraphs, where it gives no
  paragraph list, where it fails, where the completion fails, and with another fresh
  UUID.\<close>

definition missing_paragraphs_services :: services where
  "missing_paragraphs_services = example_services\<lparr>analyze_outcome := (\<lambda>url. Returned None)\<rparr>"

definition two_paragraph_services :: services where
  "two_paragraph_services =
     example_services
       \<lparr>analyze_outcome := (\<lambda>url. Returned (Some [''Budget: $500k.'', ''No compliance info.'']))\<rparr>"

definition failing_analysis_services :: services where
  "failing_analysis_services =
     example_services\<lparr>analyze_outcome := (\<lambda>url. Raised ''(InvalidRequest) Invalid request.'')\<rparr>"

definition failing_completion_services :: services where
  "failing_completion_services =
     example_services\<lparr>completions_outcome := (\<lambda>c rq. Raised ''quota exceeded'')\<rparr>"

definition second_upload_services :: services where
  "second_upload_services = example_services\<lparr>uuid4 := ''9f1c2d3e-4b5a-4c6d-8e7f-0a1b2c3d4e5f''\<rparr>"

text \<open>The same deployment on a console that encodes ASCII only: a line with a byte of
  the magnifying glass is refused with the text of \<^verbatim>\<open>UnicodeEncodeError\<close>.\<close>

definition encode_error :: string where
  "encode_error =
     [CHR 0x27] @ ''ascii'' @ [CHR 0x27] @ '' codec can'' @ [CHR 0x27] @ ''t encode character ''
     @ [CHR 0x27, CHR 0x5C] @ ''U0001f50d'' @ [CHR 0x27]
     @ '' in position 0: ordinal not in range(128)''"

definition ascii_console_services :: services where
  "ascii_console_services =
     example_services
       \<lparr>stdout_outcome :=
          (\<lambda>text. if CHR 0xF0 \<in> set text then Raised encode_error else Returned ())\<rparr>"

definition example_chat_request :: completion_request where
  "example_chat_request =
     \<lparr>model = ''gpt-35-turbo'', temperature = 1 / 2, max_tokens = 1000,
      messages =
        [\<lparr>role = ''system'', content = ''You answer using Azure Cognitive Search.''\<rparr>,
         \<lparr>role = ''user'', content = chatbot_prompt ''Summarize the proposal''\<rparr>],
      extra_body =
        Some [\<lparr>ds_type = ''AzureCognitiveSearch'', ds_endpoint = ''https://search.example'',
               ds_key = ''search-key'', ds_indexName = ''proposals''\<rparr>]\<rparr>"

section \<open>Auxiliary facts\<close>

lemmas action_defs =
  return_val_def raise_exc_def bind_act_def try_except_def call_service_def
  getitem_def first_choice_def completions_create_def form_getitem_def
  upload_blob_def generate_blob_sas_def begin_analyze_document_from_url_def
  print_line_def request_json_get_message_def

lemmas example_defs =
  example_services_def example_form_def example_blob_name_def example_grant_def
  example_sas_url_def two_paragraph_services_def failing_analysis_services_def
  failing_completion_services_def second_upload_services_def example_chat_request_def
  missing_paragraphs_services_def ascii_console_services_def

lemma join_Cons: "join sep (p # ps) = p @ concat (map (\<lambda>q. sep @ q) ps)"
  by (induction ps arbitrary: p) simp_all

lemma length_cons_each:
  "length (concat (map ((#) c) ps)) = sum_list (map length ps) + length ps"
  by (induction ps) simp_all

lemma upload_prompt_inject: "upload_prompt a q = upload_prompt b q \<longleftrightarrow> a = b"
  by (simp add: upload_prompt_def)

lemma upload_and_ask_grants:
  "g \<in> set (issued_grants (snd (upload_and_ask sv form))) \<Longrightarrow>
     g = \<lparr>account_name = blob_account_name sv, container_name = AZURE_BLOB_CONTAINER sv,
          blob_name = uuid4 sv @ ''_'' @ filename (the (file form)),
          account_key = AZURE_BLOB_KEY sv, permission = BlobSasPermissions True,
          expiry = utcnow sv + timedelta_minutes 10\<rparr>"
  by (simp add: upload_and_ask_def action_defs
      split: outcome.split_asm list.split_asm option.split_asm)

lemma extract_text_grants:
  "g \<in> set (issued_grants (snd (extract_text sv form))) \<Longrightarrow>
     g = \<lparr>account_name = blob_account_name sv, container_name = AZURE_BLOB_CONTAINER sv,
          blob_name = uuid4 sv @ ''_'' @ filename (the (file form)),
          account_key = AZURE_BLOB_KEY sv, permission = BlobSasPermissions True,
          expiry = utcnow sv + timedelta_minutes 10\<rparr>"
  by (simp add: extract_text_def action_defs
      split: outcome.split_asm list.split_asm option.split_asm)

lemma append_differs: "length u1 = length u2 \<Longrightarrow> u1 \<noteq> u2 \<Longrightarrow> u1 @ s \<noteq> u2 @ t"
  by simp

lemma upload_and_ask_blob_name:
  "uploaded_blob_names (snd (upload_and_ask sv \<lparr>file = Some f, question = Some q\<rparr>)) =
     [uuid4 sv @ ''_'' @ filename f]"
  by (simp add: upload_and_ask_def action_defs split: outcome.split list.split option.split)

lemma extract_text_blob_name:
  "uploaded_blob_names (snd (extract_text sv \<lparr>file = Some f, question = q\<rparr>)) =
     [uuid4 sv @ ''_'' @ filename f]"
  by (simp add: extract_text_def action_defs split: outcome.split list.split option.split)

lemma chat_sent:
  "sent_messages (snd (chat sv (JsonObject \<lparr>message = Some q\<rparr>))) =
     [[\<lparr>role = ''system'', content = ''You answer using Azure Cognitive Search.''\<rparr>,
       \<lparr>role = ''user'', content = chatbot_prompt_before @ q @ concat chatbot_prompt_lines\<rparr>]]"
  by (simp add: chat_def chatbot_query_def action_defs chatbot_prompt_def dict_get_def
      split: outcome.split list.split)

lemma chatbot_prompt_parts:
  "take (length chatbot_prompt_before) (chatbot_prompt q) = chatbot_prompt_before
   \<and> take (length q) (drop (length chatbot_prompt_before) (chatbot_prompt q)) = q
   \<and> drop (length chatbot_prompt_before + length q) (chatbot_prompt q) =
       concat chatbot_prompt_lines"
  by (simp add: chatbot_prompt_def)

lemma chatbot_prompt_before_end: "suffix ''User query: '' chatbot_prompt_before"
  by (simp add: chatbot_prompt_before_def suffix_def)

lemma chatbot_prompt_lines_order:
 \<open>occur_in_order
     [''First, give a general summary'',
      ''- Technology Specs'',
      ''- Problem being addressed'',
      ''-User numbers and deployment scale'',
      ''-Current systems and pain points'',
      ''- Action Items for proposal team'',
      ''- Required integrations'',
      ''- If suggesting BOM items, explain why they match the requirements'',
      ''If any section is missing, respond with: "This document does not contain information on [Missing Section]."'']
     (concat chatbot_prompt_lines)\<close>
  by code_simp

lemma query_not_last:
  "\<not> suffix ''Summarize the proposal'' (chatbot_prompt ''Summarize the proposal'')"
  by (simp add: chatbot_prompt_def chatbot_prompt_lines_def chatbot_prompt_before_def suffix_def)

lemma query_then_labels:
  "occur_in_order [''Summarize the proposal'', ''- Technology Specs'']
     (chatbot_prompt ''Summarize the proposal'')"
  by code_simp

lemma labels_then_query:
  "\<not> occur_in_order [''- Technology Specs'', ''Summarize the proposal'']
     (chatbot_prompt ''Summarize the proposal'')"
  by code_simp

section \<open>The claims\<close>

text \<open>
  Claim C1.  For a follow-up chat request with document body \<open>D\<close> and history \<open>H\<close>,
  exactly one call goes out, to the completion service, and the turn sequence it carries
  is the system turn with the fixed instruction block, the system turn with \<open>D\<close>, and
  then \<open>H\<close> as it came: no turn altered, dropped or reordered.  With an empty history the
  sequence is the two system turns alone.
\<close>

theorem followup_chat_messages:
  "snd (followup_chat sv \<lparr>doc = Some D, history = Some H\<rparr>) =
     [CompletionsCreate client
        \<lparr>model = AZURE_OAI_DEPLOYMENT sv, temperature = 1 / 2, max_tokens = 1000,
         messages =
           \<lparr>role = ''system'', content = prompt_intro\<rparr> # \<lparr>role = ''system'', content = D\<rparr> # H,
         extra_body = None\<rparr>]
   \<and> sent_messages (snd (followup_chat sv \<lparr>doc = Some D, history = Some H\<rparr>)) =
     [[\<lparr>role = ''system'', content = prompt_intro\<rparr>, \<lparr>role = ''system'', content = D\<rparr>] @ H]
   \<and> sent_messages (snd (followup_chat sv \<lparr>doc = Some D, history = Some []\<rparr>)) =
     [[\<lparr>role = ''system'', content = prompt_intro\<rparr>, \<lparr>role = ''system'', content = D\<rparr>]]"
  by (simp add: followup_chat_def action_defs split: outcome.split list.split)

text \<open>
  Claim C2.  In the upload-and-ask flow, whenever the analysis that the handler requested
  reports zero paragraphs (the paragraph list is missing or empty), the document body
  placed in the user turn sent to the completion service is the fixed text
  \<open>No content found\<close>.  That turn differs from the one an empty body would give, and the
  body expression of line 157 yields the same text.
\<close>

theorem upload_and_ask_zero_paragraphs_body:
  "(\<forall>u. AnalyzeDocumentFromUrl ''prebuilt-document'' u
            \<in> set (snd (upload_and_ask sv \<lparr>file = Some f, question = Some q\<rparr>))
        \<and> (analyze_outcome sv u = Returned None \<or> analyze_outcome sv u = Returned (Some []))
      \<longrightarrow> sent_messages (snd (upload_and_ask sv \<lparr>file = Some f, question = Some q\<rparr>)) =
          [[\<lparr>role = ''system'', content = ''You are an AI document assistant.''\<rparr>,
            \<lparr>role = ''user'', content = upload_prompt ''No content found'' q\<rparr>]])
   \<and> sent_messages (snd (upload_and_ask
         (sv\<lparr>upload_outcome := \<lambda>_ _. Returned (), sas_outcome := \<lambda>_. Returned tok,
             analyze_outcome := \<lambda>_. Returned None\<rparr>)
         \<lparr>file = Some f, question = Some q\<rparr>)) =
       [[\<lparr>role = ''system'', content = ''You are an AI document assistant.''\<rparr>,
         \<lparr>role = ''user'', content = upload_prompt ''No content found'' q\<rparr>]]
   \<and> upload_prompt ''No content found'' q \<noteq> upload_prompt '''' q
   \<and> upload_full_text None = ''No content found''
   \<and> upload_full_text (Some []) = ''No content found''"
proof -
  have general:
    "\<forall>u. AnalyzeDocumentFromUrl ''prebuilt-document'' u
            \<in> set (snd (upload_and_ask sv \<lparr>file = Some f, question = Some q\<rparr>))
        \<and> (analyze_outcome sv u = Returned None \<or> analyze_outcome sv u = Returned (Some []))
      \<longrightarrow> sent_messages (snd (upload_and_ask sv \<lparr>file = Some f, question = Some q\<rparr>)) =
          [[\<lparr>role = ''system'', content = ''You are an AI document assistant.''\<rparr>,
            \<lparr>role = ''user'', content = upload_prompt ''No content found'' q\<rparr>]]"
    by (auto simp add: upload_and_ask_def action_defs upload_full_text_def
        split: outcome.split list.split option.split)
  have forced:
    "sent_messages (snd (upload_and_ask
         (sv\<lparr>upload_outcome := \<lambda>_ _. Returned (), sas_outcome := \<lambda>_. Returned tok,
             analyze_outcome := \<lambda>_. Returned None\<rparr>)
         \<lparr>file = Some f, question = Some q\<rparr>)) =
       [[\<lparr>role = ''system'', content = ''You are an AI document assistant.''\<rparr>,
         \<lparr>role = ''user'', content = upload_prompt ''No content found'' q\<rparr>]]"
    by (simp add: upload_and_ask_def action_defs upload_full_text_def
        split: outcome.split list.split)
  have differs: "upload_prompt ''No content found'' q \<noteq> upload_prompt '''' q"
    by (simp only: upload_prompt_inject) simp
  have body: "upload_full_text None = ''No content found''
      \<and> upload_full_text (Some []) = ''No content found''"
    by (simp add: upload_full_text_def)
  from general forced differs body show ?thesis by blast
qed

text \<open>
  Claim C2, witness: the upload of \<open>report.pdf\<close> with the question \<open>What is the budget?\<close>,
  answered by an analysis without a paragraph list.
\<close>

theorem upload_and_ask_zero_paragraphs_body_witness:
  "AnalyzeDocumentFromUrl ''prebuilt-document'' example_sas_url
     \<in> set (snd (upload_and_ask missing_paragraphs_services example_form))
   \<and> analyze_outcome missing_paragraphs_services example_sas_url = Returned None
   \<and> sent_messages (snd (upload_and_ask missing_paragraphs_services example_form)) =
       [[\<lparr>role = ''system'', content = ''You are an AI document assistant.''\<rparr>,
         \<lparr>role = ''user'',
          content = upload_prompt ''No content found'' ''What is the budget?''\<rparr>]]"
proof -
  let ?sv = missing_paragraphs_services
  let ?f = "\<lparr>filename = ''report.pdf'', stream = ''%PDF''\<rparr>"
  let ?q = "''What is the budget?''"
  have form: "example_form = \<lparr>file = Some ?f, question = Some ?q\<rparr>"
    by (simp add: example_form_def)
  have called: "AnalyzeDocumentFromUrl ''prebuilt-document'' example_sas_url
      \<in> set (snd (upload_and_ask ?sv \<lparr>file = Some ?f, question = Some ?q\<rparr>))"
    by (simp add: upload_and_ask_def action_defs example_defs)
  have none: "analyze_outcome ?sv example_sas_url = Returned None"
    by (simp add: example_defs)
  from upload_and_ask_zero_paragraphs_body [where sv = ?sv and f = ?f and q = ?q] called none
  have "sent_messages (snd (upload_and_ask ?sv \<lparr>file = Some ?f, question = Some ?q\<rparr>)) =
       [[\<lparr>role = ''system'', content = ''You are an AI document assistant.''\<rparr>,
         \<lparr>role = ''user'', content = upload_prompt ''No content found'' ?q\<rparr>]]"
    by blast
  with called none show ?thesis
    unfolding form by blast
qed

text \<open>
  Claim C3, as stated, fails.  With an upload whose analysis reports zero paragraphs and a
  question, upload-and-ask takes no empty-result branch: the user turn it sends to the
  completion service has \<open>No content found\<close> in the place of the document body, and the
  completion's answer is returned with status 200.
\<close>

theorem upload_and_ask_grounds_on_sentinel:
  "sent_messages (snd (upload_and_ask example_services example_form)) =
     [[\<lparr>role = ''system'', content = ''You are an AI document assistant.''\<rparr>,
       \<lparr>role = ''user'',
        content = upload_prompt ''No content found'' ''What is the budget?''\<rparr>]]
   \<and> fst (upload_and_ask example_services example_form) =
       Returned \<lparr>json = [(''answer'', ''The document has no content.'')], status = 200\<rparr>"
  by (simp add: upload_and_ask_def action_defs example_defs upload_full_text_def jsonify_def)

text \<open>
  Claim C3, amended.  In the upload-and-ask flow zero extracted paragraphs is not a
  separate outcome: whether the paragraph list is missing or empty, the handler does
  exactly what it does for a document whose only paragraph reads \<open>No content found\<close>; and
  when the upload, the signing and the analysis succeed, the user turn sent to the
  completion service is the prompt with \<open>No content found\<close> as the document body.
\<close>

theorem upload_and_ask_no_empty_branch:
  "upload_and_ask (sv\<lparr>analyze_outcome := \<lambda>_. Returned None\<rparr>) form =
     upload_and_ask (sv\<lparr>analyze_outcome := \<lambda>_. Returned (Some [''No content found''])\<rparr>) form
   \<and> upload_and_ask (sv\<lparr>analyze_outcome := \<lambda>_. Returned (Some [])\<rparr>) form =
     upload_and_ask (sv\<lparr>analyze_outcome := \<lambda>_. Returned (Some [''No content found''])\<rparr>) form
   \<and> sent_messages (snd (upload_and_ask
         (sv\<lparr>upload_outcome := \<lambda>_ _. Returned (), sas_outcome := \<lambda>_. Returned tok,
             analyze_outcome := \<lambda>_. Returned (Some [])\<rparr>)
         \<lparr>file = Some f, question = Some q\<rparr>)) =
     [[\<lparr>role = ''system'', content = ''You are an AI document assistant.''\<rparr>,
       \<lparr>role = ''user'', content = upload_prompt ''No content found'' q\<rparr>]]"
  by (simp add: upload_and_ask_def action_defs upload_full_text_def
      split: outcome.split list.split option.split)

text \<open>
  Claim C4, as stated, fails.  A request whose body is a JSON list reaches
  \<^verbatim>\<open>request.json.get\<close> on line 76, outside any \<^verbatim>\<open>try\<close>: the \<^verbatim>\<open>AttributeError\<close> leaves the
  handler, no call is made and no payload with a \<open>response\<close> field is returned.
\<close>

theorem chat_faults_on_non_object:
  "chat example_services (JsonNonObject ''list'') =
     (Raised (attribute_error ''list'' ''get''), [])"
  by (simp add: chat_def action_defs)

text \<open>
  Claim C4, amended.  For every request to the indexed chat operation whose body is a
  JSON object, and every behaviour of the completion service, the caller receives a
  payload with the single field \<open>response\<close> and status 200; and when the completion call
  that was made raised an exception with text \<open>e\<close>, the response is
  \<open>Error retrieving insights: \<close> followed by \<open>e\<close>: the fault does not reach the caller.
\<close>

theorem chat_object_never_raises:
  "(\<exists>s. fst (chat sv (JsonObject body)) =
          Returned \<lparr>json = [(''response'', s)], status = 200\<rparr>)
   \<and> (\<forall>ev e. ev \<in> set (snd (chat sv (JsonObject body))) \<and> outcome_raised sv ev e
        \<longrightarrow> fst (chat sv (JsonObject body)) =
            Returned \<lparr>json = [(''response'', ''Error retrieving insights: '' @ e)],
                      status = 200\<rparr>)"
  by (auto simp add: chat_def chatbot_query_def action_defs jsonify_def
      split: outcome.split list.split)

text \<open>
  Claim C4, witness: the completion service refuses the request \<open>Summarize the proposal\<close>
  with \<open>quota exceeded\<close>, and the caller receives the explanatory response.
\<close>

theorem chat_object_never_raises_witness:
  "CompletionsCreate client_with_extensions example_chat_request
     \<in> set (snd (chat failing_completion_services
                   (JsonObject \<lparr>message = Some ''Summarize the proposal''\<rparr>)))
   \<and> outcome_raised failing_completion_services
       (CompletionsCreate client_with_extensions example_chat_request) ''quota exceeded''
   \<and> fst (chat failing_completion_services
            (JsonObject \<lparr>message = Some ''Summarize the proposal''\<rparr>)) =
       Returned \<lparr>json = [(''response'', ''Error retrieving insights: quota exceeded'')],
                 status = 200\<rparr>"
proof -
  let ?sv = failing_completion_services
  let ?body = "\<lparr>message = Some ''Summarize the proposal''\<rparr>"
  let ?ev = "CompletionsCreate client_with_extensions example_chat_request"
  have sent: "?ev \<in> set (snd (chat ?sv (JsonObject ?body)))"
    by (simp add: chat_def chatbot_query_def action_defs example_defs extension_config_def
        dict_get_def)
  have raised: "outcome_raised ?sv ?ev ''quota exceeded''"
    by (simp add: example_defs)
  from chat_object_never_raises [of ?sv ?body] sent raised
  have "fst (chat ?sv (JsonObject ?body)) =
          Returned \<lparr>json = [(''response'', ''Error retrieving insights: '' @ ''quota exceeded'')],
                    status = 200\<rparr>"
    by blast
  with sent raised show ?thesis by simp
qed

text \<open>
  Claim C5.  Every access grant requested by the two upload handlers expires ten minutes
  (600 seconds, counted in microseconds) after the clock reading at which it is issued,
  hence strictly later than that reading, and carries the read permission and no other:
  neither write nor delete.
\<close>

theorem access_grant_expiry_read_only:
  "\<forall>g \<in> set (issued_grants (snd (upload_and_ask sv form))
              @ issued_grants (snd (extract_text sv form'))).
     expiry g = utcnow sv + 600 * 1000000
     \<and> utcnow sv < expiry g
     \<and> permission g = BlobSasPermissions True
     \<and> read (permission g) \<and> \<not> write (permission g) \<and> \<not> delete (permission g)"
proof
  fix g
  assume "g \<in> set (issued_grants (snd (upload_and_ask sv form))
              @ issued_grants (snd (extract_text sv form')))"
  then have "g \<in> set (issued_grants (snd (upload_and_ask sv form)))
      \<or> g \<in> set (issued_grants (snd (extract_text sv form')))"
    by simp
  then have "expiry g = utcnow sv + timedelta_minutes 10
      \<and> permission g = BlobSasPermissions True"
  proof
    assume "g \<in> set (issued_grants (snd (upload_and_ask sv form)))"
    then have "g =
        \<lparr>account_name = blob_account_name sv, container_name = AZURE_BLOB_CONTAINER sv,
         blob_name = uuid4 sv @ ''_'' @ filename (the (file form)),
         account_key = AZURE_BLOB_KEY sv, permission = BlobSasPermissions True,
         expiry = utcnow sv + timedelta_minutes 10\<rparr>"
      by (rule upload_and_ask_grants)
    then show ?thesis by simp
  next
    assume "g \<in> set (issued_grants (snd (extract_text sv form')))"
    then have "g =
        \<lparr>account_name = blob_account_name sv, container_name = AZURE_BLOB_CONTAINER sv,
         blob_name = uuid4 sv @ ''_'' @ filename (the (file form')),
         account_key = AZURE_BLOB_KEY sv, permission = BlobSasPermissions True,
         expiry = utcnow sv + timedelta_minutes 10\<rparr>"
      by (rule extract_text_grants)
    then show ?thesis by simp
  qed
  then show "expiry g = utcnow sv + 600 * 1000000
     \<and> utcnow sv < expiry g
     \<and> permission g = BlobSasPermissions True
     \<and> read (permission g) \<and> \<not> write (permission g) \<and> \<not> delete (permission g)"
    by (simp add: timedelta_minutes_def BlobSasPermissions_def)
qed

text \<open>
  Claim C5, witness: the grant issued for the upload of \<open>report.pdf\<close> at clock reading
  1700000000000000.
\<close>

theorem access_grant_expiry_read_only_witness:
  "example_grant \<in> set (issued_grants (snd (upload_and_ask example_services example_form))
                        @ issued_grants (snd (extract_text example_services example_form)))
   \<and> utcnow example_services = 1700000000000000
   \<and> expiry example_grant = utcnow example_services + 600 * 1000000
   \<and> utcnow example_services < expiry example_grant
   \<and> read (permission example_grant)
   \<and> \<not> write (permission example_grant)
   \<and> \<not> delete (permission example_grant)"
proof -
  have issued:
    "example_grant \<in> set (issued_grants (snd (upload_and_ask example_services example_form))
                          @ issued_grants (snd (extract_text example_services example_form)))"
    by (simp add: upload_and_ask_def extract_text_def action_defs example_defs
        timedelta_minutes_def)
  have now: "utcnow example_services = 1700000000000000"
    by (simp add: example_defs)
  from access_grant_expiry_read_only [of example_services example_form example_form] issued
  have "expiry example_grant = utcnow example_services + 600 * 1000000
        \<and> utcnow example_services < expiry example_grant
        \<and> permission example_grant = BlobSasPermissions True
        \<and> read (permission example_grant) \<and> \<not> write (permission example_grant)
        \<and> \<not> delete (permission example_grant)"
    by (rule bspec)
  with issued now show ?thesis by blast
qed

text \<open>
  Claim C6.  For every non-empty list of extracted paragraphs \<open>p # ps\<close>, the document body
  is \<open>p\<close> followed by each further paragraph preceded by one space, in the order
  returned, and nothing else: its length is the total length of the paragraphs plus one
  for each paragraph after the first.  This is the body that upload-and-ask places in the
  user turn it sends to the completion service, and the \<open>text\<close> field that extract-text
  returns, when the calls before succeed.
\<close>

theorem full_text_space_joined:
  "sent_messages (snd (upload_and_ask
       (sv\<lparr>upload_outcome := \<lambda>_ _. Returned (), sas_outcome := \<lambda>_. Returned tok,
           analyze_outcome := \<lambda>_. Returned (Some (p # ps))\<rparr>)
       \<lparr>file = Some f, question = Some q\<rparr>)) =
     [[\<lparr>role = ''system'', content = ''You are an AI document assistant.''\<rparr>,
       \<lparr>role = ''user'',
        content = upload_prompt (p @ concat (map (\<lambda>x. '' '' @ x) ps)) q\<rparr>]]
   \<and> fst (extract_text
         (sv\<lparr>upload_outcome := \<lambda>_ _. Returned (), sas_outcome := \<lambda>_. Returned tok,
             analyze_outcome := \<lambda>_. Returned (Some (p # ps)),
             stdout_outcome := \<lambda>_. Returned ()\<rparr>)
         \<lparr>file = Some f, question = q'\<rparr>) =
       Returned \<lparr>json = [(''text'', p @ concat (map (\<lambda>x. '' '' @ x) ps))], status = 200\<rparr>
   \<and> upload_full_text (Some (p # ps)) = p @ concat (map (\<lambda>x. '' '' @ x) ps)
   \<and> length (p @ concat (map (\<lambda>x. '' '' @ x) ps)) =
       sum_list (map length (p # ps)) + length ps"
proof -
  have asked:
    "sent_messages (snd (upload_and_ask
       (sv\<lparr>upload_outcome := \<lambda>_ _. Returned (), sas_outcome := \<lambda>_. Returned tok,
           analyze_outcome := \<lambda>_. Returned (Some (p # ps))\<rparr>)
       \<lparr>file = Some f, question = Some q\<rparr>)) =
     [[\<lparr>role = ''system'', content = ''You are an AI document assistant.''\<rparr>,
       \<lparr>role = ''user'',
        content = upload_prompt (p @ concat (map (\<lambda>x. '' '' @ x) ps)) q\<rparr>]]"
    by (simp add: upload_and_ask_def action_defs upload_full_text_def join_Cons
        del: join.simps split: outcome.split list.split)
  have extracted:
    "fst (extract_text
         (sv\<lparr>upload_outcome := \<lambda>_ _. Returned (), sas_outcome := \<lambda>_. Returned tok,
             analyze_outcome := \<lambda>_. Returned (Some (p # ps)),
             stdout_outcome := \<lambda>_. Returned ()\<rparr>)
         \<lparr>file = Some f, question = q'\<rparr>) =
       Returned \<lparr>json = [(''text'', p @ concat (map (\<lambda>x. '' '' @ x) ps))], status = 200\<rparr>"
    by (simp add: extract_text_def action_defs join_Cons jsonify_def del: join.simps)
  have body: "upload_full_text (Some (p # ps)) = p @ concat (map (\<lambda>x. '' '' @ x) ps)"
    by (simp add: upload_full_text_def join_Cons del: join.simps)
  have len: "length (p @ concat (map (\<lambda>x. '' '' @ x) ps)) =
      sum_list (map length (p # ps)) + length ps"
    by (simp add: length_cons_each)
  from asked extracted body len show ?thesis by blast
qed

text \<open>
  Claim C7, as stated, fails.  In the user turn composed for the query
  \<open>Summarize the proposal\<close> the query is not the end of the turn: it occurs before the
  section label list, and does not occur after the first label.
\<close>

theorem chatbot_prompt_query_before_labels:
  "\<not> suffix ''Summarize the proposal'' (chatbot_prompt ''Summarize the proposal'')
   \<and> occur_in_order [''Summarize the proposal'', ''- Technology Specs'']
        (chatbot_prompt ''Summarize the proposal'')
   \<and> \<not> occur_in_order [''- Technology Specs'', ''Summarize the proposal'']
          (chatbot_prompt ''Summarize the proposal'')"
  using query_not_last query_then_labels labels_then_query by blast

text \<open>
  Claim C7, amended.  For every user query \<open>q\<close> of the indexed chat, the user turn sent to
  the completion service is a fixed preamble that ends in \<open>User query: \<close>, then the
  literal query, then the fixed instruction block.  The preamble and the block are the
  same for every query, whatever its content, and the block holds, in this order, the
  summary-first sentence, the seven section labels and the missing-section policy
  sentence.
\<close>

theorem chatbot_prompt_shape:
 \<open>sent_messages (snd (chat sv (JsonObject \<lparr>message = Some q\<rparr>))) =
     [[\<lparr>role = ''system'', content = ''You answer using Azure Cognitive Search.''\<rparr>,
       \<lparr>role = ''user'', content = chatbot_prompt_before @ q @ concat chatbot_prompt_lines\<rparr>]]
   \<and> chatbot_prompt q = chatbot_prompt_before @ q @ concat chatbot_prompt_lines
   \<and> suffix ''User query: '' chatbot_prompt_before
   \<and> take (length chatbot_prompt_before) (chatbot_prompt q) = chatbot_prompt_before
   \<and> take (length q) (drop (length chatbot_prompt_before) (chatbot_prompt q)) = q
   \<and> drop (length chatbot_prompt_before + length q) (chatbot_prompt q) =
       concat chatbot_prompt_lines
   \<and> occur_in_order
       [''First, give a general summary'',
        ''- Technology Specs'',
        ''- Problem being addressed'',
        ''-User numbers and deployment scale'',
        ''-Current systems and pain points'',
        ''- Action Items for proposal team'',
        ''- Required integrations'',
        ''- If suggesting BOM items, explain why they match the requirements'',
        ''If any section is missing, respond with: "This document does not contain information on [Missing Section]."'']
       (concat chatbot_prompt_lines)\<close>
  using chat_sent [of sv q] chatbot_prompt_parts [of q] chatbot_prompt_before_end
    chatbot_prompt_lines_order chatbot_prompt_def [of q]
  by blast

text \<open>
  Claim C8.  The storage key of an upload is the fresh identifier, an underscore and the
  original file name.  For two uploads, through either handler, whose identifiers are
  distinct UUID texts (36 characters each), the keys differ, whatever the two file names
  are, identical or not.
\<close>

theorem storage_keys_differ:
  assumes "length (uuid4 sv1) = 36" and "length (uuid4 sv2) = 36"
    and "uuid4 sv1 \<noteq> uuid4 sv2"
  shows "uploaded_blob_names (snd (upload_and_ask sv1 \<lparr>file = Some f1, question = Some q1\<rparr>)) =
           [uuid4 sv1 @ ''_'' @ filename f1]
       \<and> uploaded_blob_names (snd (extract_text sv1 \<lparr>file = Some f1, question = q1'\<rparr>)) =
           [uuid4 sv1 @ ''_'' @ filename f1]
       \<and> uploaded_blob_names (snd (upload_and_ask sv1 \<lparr>file = Some f1, question = Some q1\<rparr>)) \<noteq>
         uploaded_blob_names (snd (upload_and_ask sv2 \<lparr>file = Some f2, question = Some q2\<rparr>))
       \<and> uploaded_blob_names (snd (extract_text sv1 \<lparr>file = Some f1, question = q1'\<rparr>)) \<noteq>
         uploaded_blob_names (snd (extract_text sv2 \<lparr>file = Some f2, question = q2'\<rparr>))
       \<and> uploaded_blob_names (snd (upload_and_ask sv1 \<lparr>file = Some f1, question = Some q1\<rparr>)) \<noteq>
         uploaded_blob_names (snd (extract_text sv2 \<lparr>file = Some f2, question = q2'\<rparr>))"
proof -
  have "length (uuid4 sv1) = length (uuid4 sv2)"
    using assms(1) assms(2) by (rule trans [OF _ sym])
  then have "uuid4 sv1 @ ''_'' @ filename f1 \<noteq> uuid4 sv2 @ ''_'' @ filename f2"
    using assms(3) by (rule append_differs)
  then show ?thesis
    by (simp only: upload_and_ask_blob_name extract_text_blob_name list.inject simp_thms)
qed

text \<open>
  Claim C8, witness: two uploads of \<open>report.pdf\<close> with different fresh identifiers are
  stored under different keys.
\<close>

theorem storage_keys_differ_witness:
  "length (uuid4 example_services) = 36
   \<and> length (uuid4 second_upload_services) = 36
   \<and> uuid4 example_services \<noteq> uuid4 second_upload_services
   \<and> uploaded_blob_names (snd (upload_and_ask example_services example_form)) =
       [example_blob_name]
   \<and> uploaded_blob_names (snd (upload_and_ask example_services example_form)) \<noteq>
     uploaded_blob_names (snd (upload_and_ask second_upload_services example_form))
   \<and> uploaded_blob_names (snd (extract_text example_services example_form)) \<noteq>
     uploaded_blob_names (snd (extract_text second_upload_services example_form))"
proof -
  have l1: "length (uuid4 example_services) = 36"
    by (simp add: example_defs)
  have l2: "length (uuid4 second_upload_services) = 36"
    by (simp add: example_defs)
  have ne: "uuid4 example_services \<noteq> uuid4 second_upload_services"
    by (simp add: example_defs)
  have name: "uuid4 example_services @ ''_'' @ filename \<lparr>filename = ''report.pdf'', stream = ''%PDF''\<rparr>
                = example_blob_name"
    by (simp add: example_defs)
  from storage_keys_differ [OF l1 l2 ne,
      of "\<lparr>filename = ''report.pdf'', stream = ''%PDF''\<rparr>" "''What is the budget?''"
         "Some ''What is the budget?''"
         "\<lparr>filename = ''report.pdf'', stream = ''%PDF''\<rparr>" "''What is the budget?''"
         "Some ''What is the budget?''"]
  show ?thesis
    unfolding example_form_def [symmetric] name
    using l1 l2 ne by blast
qed




text \<open>
  Claim C10.  An indexed chat request whose JSON object has no \<open>message\<close> field is handled
  exactly as the request with the empty message: the query defaults to the empty string,
  the prompt is composed from it and sent to the completion service, and the operation
  returns a payload with the field \<open>response\<close> and status 200.
\<close>

theorem chat_missing_message:
  "chat sv (JsonObject \<lparr>message = None\<rparr>) = chat sv (JsonObject \<lparr>message = Some ''''\<rparr>)
   \<and> (\<exists>s. fst (chat sv (JsonObject \<lparr>message = None\<rparr>)) =
            Returned \<lparr>json = [(''response'', s)], status = 200\<rparr>)
   \<and> sent_messages (snd (chat sv (JsonObject \<lparr>message = None\<rparr>))) =
       [[\<lparr>role = ''system'', content = ''You answer using Azure Cognitive Search.''\<rparr>,
         \<lparr>role = ''user'', content = chatbot_prompt ''''\<rparr>]]"
  by (auto simp add: chat_def chatbot_query_def action_defs dict_get_def jsonify_def
      split: outcome.split list.split)

end
